theory Spec2Isabelle
  imports Complex_Main
begin

section \<open>Numbers and vectors\<close>

text \<open>
  The viewer computes with JavaScript numbers. Finite numbers are modelled as
  \<^typ>\<open>real\<close>: arithmetic is exact, rounding and the sign of zero are left out.
  The source leaves the finite numbers at the division \<^verbatim>\<open>2 / maxDim\<close> of the
  normalisation, and what is stored after it (the reference metrics) enters the
  arithmetic of every later render; these values are \<open>jsnumber\<close>s, with JavaScript's
  results for \<^verbatim>\<open>Infinity\<close> and \<^verbatim>\<open>NaN\<close>. The props \<^verbatim>\<open>position\<close>, \<^verbatim>\<open>scale\<close> and
  \<^verbatim>\<open>rotation\<close> come from the range sliders of \<^verbatim>\<open>StudioLayout\<close> and are finite.

  A \<^verbatim>\<open>[number, number, number]\<close> tuple and a \<^verbatim>\<open>THREE.Vector3\<close> are triples.
\<close>

type_synonym vec3 = "real \<times> real \<times> real"

fun vx :: "vec3 \<Rightarrow> real" where "vx (x, y, z) = x"
fun vy :: "vec3 \<Rightarrow> real" where "vy (x, y, z) = y"
fun vz :: "vec3 \<Rightarrow> real" where "vz (x, y, z) = z"

fun vadd :: "vec3 \<Rightarrow> vec3 \<Rightarrow> vec3" where
  "vadd (a, b, c) (x, y, z) = (a + x, b + y, c + z)"

fun vmul :: "vec3 \<Rightarrow> vec3 \<Rightarrow> vec3" where
  "vmul (a, b, c) (x, y, z) = (a * x, b * y, c * z)"

fun vscale :: "real \<Rightarrow> vec3 \<Rightarrow> vec3" where
  "vscale k (x, y, z) = (k * x, k * y, k * z)"

text \<open>
  A JavaScript number that may have left the finite ones, and JavaScript's division of
  two finite numbers: dividing by zero gives an infinity or \<^verbatim>\<open>NaN\<close>, it does not
  raise.
\<close>

datatype jsnumber = Finite real | PosInfinity | NegInfinity | NaN

definition js_div :: "real \<Rightarrow> real \<Rightarrow> jsnumber" where
  "js_div a b =
     (if b = 0 then (if a = 0 then NaN else if 0 < a then PosInfinity else NegInfinity)
      else Finite (a / b))"

text \<open>
  Negation, addition, subtraction and multiplication as JavaScript has them:
  \<^verbatim>\<open>NaN\<close> is contagious, \<^verbatim>\<open>Infinity - Infinity\<close> and \<^verbatim>\<open>Infinity * 0\<close> are
  \<^verbatim>\<open>NaN\<close>.
\<close>

fun js_neg :: "jsnumber \<Rightarrow> jsnumber" where
  "js_neg (Finite a) = Finite (- a)"
| "js_neg PosInfinity = NegInfinity"
| "js_neg NegInfinity = PosInfinity"
| "js_neg NaN = NaN"

fun js_add :: "jsnumber \<Rightarrow> jsnumber \<Rightarrow> jsnumber" where
  "js_add (Finite a) (Finite b) = Finite (a + b)"
| "js_add NaN y = NaN"
| "js_add x NaN = NaN"
| "js_add (Finite a) y = y"
| "js_add x (Finite b) = x"
| "js_add PosInfinity PosInfinity = PosInfinity"
| "js_add NegInfinity NegInfinity = NegInfinity"
| "js_add PosInfinity NegInfinity = NaN"
| "js_add NegInfinity PosInfinity = NaN"

definition js_sub :: "jsnumber \<Rightarrow> jsnumber \<Rightarrow> jsnumber" where
  "js_sub x y = js_add x (js_neg y)"

fun js_mul :: "jsnumber \<Rightarrow> jsnumber \<Rightarrow> jsnumber" where
  "js_mul (Finite a) (Finite b) = Finite (a * b)"
| "js_mul NaN y = NaN"
| "js_mul x NaN = NaN"
| "js_mul (Finite a) y = (if a = 0 then NaN else if 0 < a then y else js_neg y)"
| "js_mul x (Finite b) = (if b = 0 then NaN else if 0 < b then x else js_neg x)"
| "js_mul PosInfinity y = y"
| "js_mul NegInfinity y = js_neg y"

type_synonym jsvec3 = "jsnumber \<times> jsnumber \<times> jsnumber"

text \<open>Adding a finite vector to one that may not be finite.\<close>

fun jadd :: "jsvec3 \<Rightarrow> vec3 \<Rightarrow> jsvec3" where
  "jadd (a, b, c) (x, y, z) = (js_add a (Finite x), js_add b (Finite y), js_add c (Finite z))"

section \<open>The Model component: anchor-preserving position\<close>

text \<open>
  The three state variables \<^verbatim>\<open>originalLeftX\<close>, \<^verbatim>\<open>originalBottomY\<close> and
  \<^verbatim>\<open>originalFrontZ\<close> of \<^verbatim>\<open>Model\<close> (ModelViewer.tsx), written once by
  \<^verbatim>\<open>loadModel\<close> (lines 111 to 113). After a load of degenerate geometry they hold
  \<^verbatim>\<open>-Infinity\<close> or \<^verbatim>\<open>NaN\<close>, so they are \<open>jsnumber\<close>s.
\<close>

record referenceMetrics =
  originalLeftX :: jsnumber
  originalBottomY :: jsnumber
  originalFrontZ :: jsnumber

text \<open>
  \<^verbatim>\<open>
  const adjustedPosition = [
    position[0] - (originalLeftX * (scale[0] - 1)),
    position[1] - (originalBottomY * (scale[1] - 1)),
    position[2] - (originalFrontZ * (scale[2] - 1))
  ]
  \<close>
\<close>

definition adjustedPosition :: "referenceMetrics \<Rightarrow> vec3 \<Rightarrow> vec3 \<Rightarrow> jsvec3" where
  "adjustedPosition r position scale =
     (js_sub (Finite (vx position)) (js_mul (originalLeftX r) (Finite (vx scale - 1))),
      js_sub (Finite (vy position)) (js_mul (originalBottomY r) (Finite (vy scale - 1))),
      js_sub (Finite (vz position)) (js_mul (originalFrontZ r) (Finite (vz scale - 1))))"

text \<open>
  \<^verbatim>\<open>rotation.map(r => r * Math.PI / 180)\<close>: the rotation prop is in degrees, the
  group receives radians.
\<close>

definition toRadians :: "vec3 \<Rightarrow> vec3" where
  "toRadians rotation =
     (vx rotation * pi / 180, vy rotation * pi / 180, vz rotation * pi / 180)"

text \<open>
  Modelled from the spec: the transform the renderer gives the
  \<^verbatim>\<open><group position scale rotation>\<close> element is not code of this repository. The
  spec states it as \<open>Translate(adjusted) \<circ> Rotate(radians, order X, Y, Z) \<circ> Scale(scale)\<close>;
  this is the local matrix three.js composes for an object whose Euler order is the
  default \<open>XYZ\<close>: the rotation matrix is \<open>R\<^sub>x R\<^sub>y R\<^sub>z\<close>, so a point is turned about Z
  first, then Y, then X.
\<close>

fun rotateX :: "real \<Rightarrow> vec3 \<Rightarrow> vec3" where
  "rotateX a (x, y, z) = (x, cos a * y - sin a * z, sin a * y + cos a * z)"

fun rotateY :: "real \<Rightarrow> vec3 \<Rightarrow> vec3" where
  "rotateY a (x, y, z) = (cos a * x + sin a * z, y, cos a * z - sin a * x)"

fun rotateZ :: "real \<Rightarrow> vec3 \<Rightarrow> vec3" where
  "rotateZ a (x, y, z) = (cos a * x - sin a * y, sin a * x + cos a * y, z)"

definition rotateEuler :: "vec3 \<Rightarrow> vec3 \<Rightarrow> vec3" where
  "rotateEuler e p = rotateX (vx e) (rotateY (vy e) (rotateZ (vz e) p))"

text \<open>
  Where the group rendered by \<^verbatim>\<open>Model\<close> puts a point \<open>p\<close> of its child, given
  the props \<open>position\<close>, \<open>scale\<close>, \<open>rotation\<close> and the stored reference metrics.
\<close>

definition groupTransform :: "referenceMetrics \<Rightarrow> vec3 \<Rightarrow> vec3 \<Rightarrow> vec3 \<Rightarrow> vec3 \<Rightarrow> jsvec3" where
  "groupTransform r position scale rotation p =
     jadd (adjustedPosition r position scale)
          (rotateEuler (toRadians rotation) (vmul scale p))"

section \<open>The Model component: loading and normalisation\<close>

text \<open>
  A \<^verbatim>\<open>THREE.Object3D\<close> as far as \<^verbatim>\<open>loadModel\<close> reads and writes it: its
  \<^verbatim>\<open>position\<close>, its \<^verbatim>\<open>scale\<close>, and the geometry beneath it, given as the vertex
  positions in the node's own frame (the transforms of its descendants applied).
  \<^verbatim>\<open>loadModel\<close> neither reads nor writes the node's rotation; it is taken to be the
  identity.
\<close>

record object3d =
  obj_position :: vec3
  obj_scale :: vec3
  vertices :: "vec3 list"

definition worldVertices :: "object3d \<Rightarrow> vec3 list" where
  "worldVertices n = map (\<lambda>v. vadd (obj_position n) (vmul (obj_scale n) v)) (vertices n)"

text \<open>
  \<^verbatim>\<open>THREE.Box3\<close> is a class of the three.js library, not code of this repository;
  it is modelled as the spec describes it, the axis-aligned minimal box containing all
  of the geometry. The empty box (three.js keeps it as \<open>min = +Infinity\<close>,
  \<open>max = -Infinity\<close>) is a constructor of its own.
\<close>

datatype box3 = Empty | Box vec3 vec3

fun vmin :: "vec3 \<Rightarrow> vec3 \<Rightarrow> vec3" where
  "vmin (a, b, c) (x, y, z) = (min a x, min b y, min c z)"

fun vmax :: "vec3 \<Rightarrow> vec3 \<Rightarrow> vec3" where
  "vmax (a, b, c) (x, y, z) = (max a x, max b y, max c z)"

fun expandByPoint :: "box3 \<Rightarrow> vec3 \<Rightarrow> box3" where
  "expandByPoint Empty p = Box p p"
| "expandByPoint (Box lo hi) p = Box (vmin lo p) (vmax hi p)"

text \<open>\<^verbatim>\<open>new THREE.Box3().setFromObject(node)\<close>: the world-axis-aligned box of the geometry.\<close>

definition setFromObject :: "object3d \<Rightarrow> box3" where
  "setFromObject n = foldl expandByPoint Empty (worldVertices n)"

text \<open>\<^verbatim>\<open>box.getSize\<close> and \<^verbatim>\<open>box.getCenter\<close>; both give the zero vector for the empty box.\<close>

fun getSize :: "box3 \<Rightarrow> vec3" where
  "getSize Empty = (0, 0, 0)"
| "getSize (Box (a, b, c) (x, y, z)) = (x - a, y - b, z - c)"

fun getCenter :: "box3 \<Rightarrow> vec3" where
  "getCenter Empty = (0, 0, 0)"
| "getCenter (Box (a, b, c) (x, y, z)) = ((a + x) * 0.5, (b + y) * 0.5, (c + z) * 0.5)"

text \<open>\<^verbatim>\<open>const maxDim = Math.max(size.x, size.y, size.z)\<close>\<close>

definition maxDim :: "object3d \<Rightarrow> real" where
  "maxDim n = (let size = getSize (setFromObject n) in max (vx size) (max (vy size) (vz size)))"

text \<open>\<^verbatim>\<open>const scale = 2 / maxDim\<close>\<close>

definition uniformScale :: "object3d \<Rightarrow> jsnumber" where
  "uniformScale n = js_div 2 (maxDim n)"

text \<open>
  What \<^verbatim>\<open>loadModel\<close> ends with. \<open>Failed e\<close>: \<open>e\<close> was thrown, caught by the outer
  \<^verbatim>\<open>catch\<close> and logged; the component keeps \<^verbatim>\<open>model = null\<close>. \<open>Loaded n r\<close>: the
  node \<open>n\<close> and the reference metrics \<open>r\<close> were stored. \<open>LoadedNonFinite\<close>: the
  node was stored as well, nothing was thrown, but its scale and reference metrics are
  no finite numbers (\<^verbatim>\<open>Infinity\<close> or \<^verbatim>\<open>NaN\<close>); their exact values are not modelled.
\<close>

datatype thrown = LoaderError "string option" | Error string

datatype loadResult = Failed thrown | Loaded object3d referenceMetrics | LoadedNonFinite

text \<open>
  Lines 94 to 114 of ModelViewer.tsx:
  \<^verbatim>\<open>
  const box = new THREE.Box3().setFromObject(loadedModel);
  const size = box.getSize(new THREE.Vector3());
  const maxDim = Math.max(size.x, size.y, size.z);
  const scale = 2 / maxDim;
  loadedModel.scale.setScalar(scale);
  const scaledBox = new THREE.Box3().setFromObject(loadedModel);
  const scaledCenter = scaledBox.getCenter(new THREE.Vector3());
  loadedModel.position.set(-scaledCenter.x, -scaledBox.min.y - 1, -scaledCenter.z);
  setOriginalBottomY(-scaledBox.min.y);
  setOriginalLeftX(-scaledBox.min.x);
  setOriginalFrontZ(-scaledBox.min.z);
  setModel(loadedModel);
  \<close>
  There is no test of \<^verbatim>\<open>maxDim\<close> before the division and nothing here throws.
  \<^verbatim>\<open>setScalar\<close> and \<^verbatim>\<open>position.set\<close> overwrite what the node had. A finite
  scalar together with an empty scaled box does not occur (an empty box has size zero);
  \<^verbatim>\<open>scaledBox.min\<close> would be \<^verbatim>\<open>+Infinity\<close> there.
\<close>

definition normalize :: "object3d \<Rightarrow> loadResult" where
  "normalize loadedModel =
     (case uniformScale loadedModel of
        Finite k \<Rightarrow>
          (let scaled = loadedModel\<lparr>obj_scale := (k, k, k)\<rparr>;
               scaledBox = setFromObject scaled;
               scaledCenter = getCenter scaledBox
           in case scaledBox of
                Box lo hi \<Rightarrow>
                  Loaded
                    (scaled\<lparr>obj_position := (- vx scaledCenter, - vy lo - 1, - vz scaledCenter)\<rparr>)
                    \<lparr>originalLeftX = Finite (- vx lo), originalBottomY = Finite (- vy lo),
                     originalFrontZ = Finite (- vz lo)\<rparr>
              | Empty \<Rightarrow> LoadedNonFinite)
      | PosInfinity \<Rightarrow> LoadedNonFinite
      | NegInfinity \<Rightarrow> LoadedNonFinite
      | NaN \<Rightarrow> LoadedNonFinite)"

subsection \<open>Strings\<close>

text \<open>
  Strings are byte strings; \<^verbatim>\<open>toLowerCase\<close> is modelled on the ASCII letters, which
  is where it matters for the extensions and format names compared here.
\<close>

definition toLowerChar :: "char \<Rightarrow> char" where
  "toLowerChar c =
     (let n = (of_char c :: nat) in if 65 \<le> n \<and> n \<le> 90 then char_of (n + 32) else c)"

definition toLowerCase :: "string \<Rightarrow> string" where
  "toLowerCase s = map toLowerChar s"

definition startsWith :: "string \<Rightarrow> string \<Rightarrow> bool" where
  "startsWith s t = (take (length t) s = t)"

definition endsWith :: "string \<Rightarrow> string \<Rightarrow> bool" where
  "endsWith s t = (length t \<le> length s \<and> drop (length s - length t) s = t)"

text \<open>\<^verbatim>\<open>s.includes(t)\<close>: \<open>t\<close> occurs in \<open>s\<close> at some position.\<close>

fun stringIncludes :: "string \<Rightarrow> string \<Rightarrow> bool" where
  "stringIncludes [] t = (t = [])"
| "stringIncludes (c # s) t = (startsWith (c # s) t \<or> stringIncludes s t)"

subsection \<open>The format switch and the FBX error branch\<close>

text \<open>
  The loaders (\<^verbatim>\<open>GLTFLoader\<close>, \<^verbatim>\<open>FBXLoader\<close>) are libraries. What the loader does
  with the URL is a parameter of the model: it hands over a node, or calls the error
  callback with an error whose \<^verbatim>\<open>message\<close> is a string or is missing.
\<close>

datatype parseResult = Parsed object3d | ParseFailed "string option"

definition versionNotSupported :: string where
  "versionNotSupported =
     ''FBX file version not supported. Please try a different FBX file or convert to glTF format.''"

text \<open>\<^verbatim>\<open>error.message || 'Unknown error'\<close>: a missing or empty message is falsy.\<close>

fun messageOrUnknown :: "string option \<Rightarrow> string" where
  "messageOrUnknown None = ''Unknown error''"
| "messageOrUnknown (Some m) = (if m = [] then ''Unknown error'' else m)"

text \<open>
  The error callback given to \<^verbatim>\<open>fbxLoader.load\<close> (lines 66 to 73): the message of the
  \<^verbatim>\<open>Error\<close> it rejects with.
\<close>

fun fbxOnError :: "string option \<Rightarrow> string" where
  "fbxOnError None = ''FBX loading failed: '' @ messageOrUnknown None"
| "fbxOnError (Some m) =
     (if m \<noteq> [] \<and> stringIncludes m ''version not supported'' then versionNotSupported
      else ''FBX loading failed: '' @ messageOrUnknown (Some m))"

text \<open>
  The \<^verbatim>\<open>catch\<close> around the FBX load (lines 76 to 83), which receives that
  \<^verbatim>\<open>Error\<close> and throws a new one.
\<close>

definition fbxCatch :: "string \<Rightarrow> string" where
  "fbxCatch m =
     (if stringIncludes m ''version not supported'' then versionNotSupported
      else ''FBX loading failed: '' @ m)"

text \<open>\<^verbatim>\<open>loadModel\<close>: the switch on \<^verbatim>\<open>format.toLowerCase()\<close>, then the normalisation.\<close>

definition loadModel :: "string \<Rightarrow> parseResult \<Rightarrow> loadResult" where
  "loadModel fmt parse =
     (let f = toLowerCase fmt in
      if f = ''gltf'' \<or> f = ''glb'' then
        (case parse of
           Parsed loadedModel \<Rightarrow> normalize loadedModel
         | ParseFailed m \<Rightarrow> Failed (LoaderError m))
      else if f = ''fbx'' then
        (case parse of
           Parsed loadedModel \<Rightarrow> normalize loadedModel
         | ParseFailed m \<Rightarrow> Failed (Error (fbxCatch (fbxOnError m))))
      else if f = ''ifc'' then
        Failed (Error ''IFC support is temporarily disabled. Please use glTF or FBX files.'')
      else Failed (Error (''Unsupported format: '' @ fmt)))"

section \<open>The camera controller\<close>

text \<open>
  The two values that \<^verbatim>\<open>handleCameraViewChange\<close> writes: \<^verbatim>\<open>camera.position\<close> and
  \<^verbatim>\<open>controls.target\<close>.
\<close>

record cameraRig =
  cameraPosition :: vec3
  controlsTarget :: vec3

definition distance :: real where
  "distance = 8"

text \<open>The \<^verbatim>\<open>switch (view)\<close> of lines 175 to 200; it has no \<^verbatim>\<open>default\<close> branch.\<close>

definition switchView :: "string \<Rightarrow> cameraRig \<Rightarrow> cameraRig" where
  "switchView view rig =
     (if view = ''front'' then
        rig\<lparr>cameraPosition := (0, 0, distance), controlsTarget := (0, 0, 0)\<rparr>
      else if view = ''back'' then
        rig\<lparr>cameraPosition := (0, 0, - distance), controlsTarget := (0, 0, 0)\<rparr>
      else if view = ''left'' then
        rig\<lparr>cameraPosition := (- distance, 0, 0), controlsTarget := (0, 0, 0)\<rparr>
      else if view = ''right'' then
        rig\<lparr>cameraPosition := (distance, 0, 0), controlsTarget := (0, 0, 0)\<rparr>
      else if view = ''top'' then
        rig\<lparr>cameraPosition := (0, distance, 0), controlsTarget := (0, 0, 0)\<rparr>
      else if view = ''bottom'' then
        rig\<lparr>cameraPosition := (0, - distance, 0), controlsTarget := (0, 0, 0)\<rparr>
      else rig)"

text \<open>
  The handler. \<open>mounted\<close> is the guard \<^verbatim>\<open>camera && controlsRef.current\<close>: without
  both the handler returns at once. \<^verbatim>\<open>controls.update()\<close> is a method of the orbit
  controls library, so it is a parameter \<open>update\<close>: it is called last, for every tag,
  on what the switch left.
\<close>

definition handleCameraViewChange ::
  "(cameraRig \<Rightarrow> cameraRig) \<Rightarrow> bool \<Rightarrow> string \<Rightarrow> cameraRig \<Rightarrow> cameraRig" where
  "handleCameraViewChange update mounted view rig =
     (if mounted then update (switchView view rig) else rig)"


text \<open>The six tags and the unit vector of each view's axis.\<close>

definition canonicalViews :: "string list" where
  "canonicalViews = [''front'', ''back'', ''left'', ''right'', ''top'', ''bottom'']"

definition axisUnitVector :: "string \<Rightarrow> vec3" where
  "axisUnitVector view =
     (if view = ''front'' then (0, 0, 1)
      else if view = ''back'' then (0, 0, - 1)
      else if view = ''left'' then (- 1, 0, 0)
      else if view = ''right'' then (1, 0, 0)
      else if view = ''top'' then (0, 1, 0)
      else (0, - 1, 0))"

section \<open>StudioLayout: the registry of placed models\<close>

datatype format = GLTF | GLB

fun formatString :: "format \<Rightarrow> string" where
  "formatString GLTF = ''gltf''"
| "formatString GLB = ''glb''"

text \<open>
  One record of the \<^verbatim>\<open>models\<close> state; \<open>model_id\<close> is its field \<^verbatim>\<open>id\<close>.
\<close>

record placedModel =
  model_id :: string
  name :: string
  url :: string
  format :: format
  position :: vec3
  scale :: vec3
  rotation :: vec3

text \<open>
  The two pieces of state of \<^verbatim>\<open>StudioLayout\<close> that hold the registry. The file
  holds two snapshots of the component; the later one is modelled. The earlier one
  differs in what is modelled here only by having no \<^verbatim>\<open>rotation\<close> field and no
  \<^verbatim>\<open>setSelectedRotation\<close>.
\<close>

record studio =
  models :: "placedModel list"
  selectedId :: "string option"

text \<open>
  \<^verbatim>\<open>handleImport\<close>. \<open>file\<close> is the name of \<^verbatim>\<open>e.target.files?.[0]\<close>, if there is
  one; \<open>newUrl\<close> and \<open>newId\<close> are what \<^verbatim>\<open>URL.createObjectURL\<close> and
  \<^verbatim>\<open>crypto.randomUUID\<close> return. The result is the new state and the text of the
  \<^verbatim>\<open>alert\<close>, if one is shown.
\<close>

definition handleImport ::
  "string option \<Rightarrow> string \<Rightarrow> string \<Rightarrow> studio \<Rightarrow> studio \<times> string option" where
  "handleImport file newUrl newId st =
     (case file of
        None \<Rightarrow> (st, None)
      | Some fileName \<Rightarrow>
          (let lower = toLowerCase fileName in
           if \<not> endsWith lower ''.gltf'' \<and> \<not> endsWith lower ''.glb'' then
             (st, Some ''Only glTF or GLB supported for import.'')
           else
             (let item = \<lparr>model_id = newId, name = fileName, url = newUrl,
                          format = (if endsWith lower ''.glb'' then GLB else GLTF),
                          position = (0, 0, 0), scale = (1, 1, 1), rotation = (0, 0, 0)\<rparr>
              in (st\<lparr>models := models st @ [item], selectedId := Some newId\<rparr>, None))))"

text \<open>
  An import followed by the load that the \<^verbatim>\<open>Model\<close> element of the new record
  runs once \<^verbatim>\<open>ModelViewer\<close> renders the registry. \<^verbatim>\<open>Model\<close> receives the record's
  \<^verbatim>\<open>url\<close>, \<^verbatim>\<open>format\<close> and transform as props and has no way to write the
  registry, so the registry after the load is the one \<^verbatim>\<open>handleImport\<close> left. A
  rejected file mounts nothing.
\<close>

definition importThenLoad ::
  "string \<Rightarrow> string \<Rightarrow> string \<Rightarrow> parseResult \<Rightarrow> studio \<Rightarrow> studio \<times> loadResult option" where
  "importThenLoad fileName newUrl newId parse st =
     (case handleImport (Some fileName) newUrl newId st of
        (st', Some message) \<Rightarrow> (st', None)
      | (st', None) \<Rightarrow>
          (st', Some (loadModel (formatString (format (last (models st')))) parse)))"

text \<open>\<^verbatim>\<open>t.map((v, i) => i === axis ? value : v)\<close> on a three-element tuple.\<close>

fun setAxis :: "nat \<Rightarrow> real \<Rightarrow> vec3 \<Rightarrow> vec3" where
  "setAxis axis v (x, y, z) =
     (if 0 = axis then v else x, if 1 = axis then v else y, if 2 = axis then v else z)"

text \<open>
  \<^verbatim>\<open>setModels(prev => prev.map(m => m.id === selectedId ? { ...m, position: ... } : m))\<close>
  and its two siblings. \<^verbatim>\<open>selectedId\<close> is a string or \<^verbatim>\<open>null\<close>.
\<close>

definition setSelectedPosition :: "nat \<Rightarrow> real \<Rightarrow> studio \<Rightarrow> studio" where
  "setSelectedPosition axis v st =
     st\<lparr>models := map (\<lambda>m. if Some (model_id m) = selectedId st
                             then m\<lparr>position := setAxis axis v (position m)\<rparr> else m)
                      (models st)\<rparr>"

definition setSelectedScale :: "nat \<Rightarrow> real \<Rightarrow> studio \<Rightarrow> studio" where
  "setSelectedScale axis v st =
     st\<lparr>models := map (\<lambda>m. if Some (model_id m) = selectedId st
                             then m\<lparr>scale := setAxis axis v (scale m)\<rparr> else m)
                      (models st)\<rparr>"

definition setSelectedRotation :: "nat \<Rightarrow> real \<Rightarrow> studio \<Rightarrow> studio" where
  "setSelectedRotation axis v st =
     st\<lparr>models := map (\<lambda>m. if Some (model_id m) = selectedId st
                             then m\<lparr>rotation := setAxis axis v (rotation m)\<rparr> else m)
                      (models st)\<rparr>"

text \<open>
  The spec's \<open>updateTransform(id, field, axis, value)\<close> names the three setters by
  the field they edit; \<open>fieldOf\<close> reads that field and \<open>component\<close> reads one axis
  of a tuple (\<^verbatim>\<open>t[i]\<close>).
\<close>

datatype transformField = Position | Scale | Rotation

fun updateTransform :: "transformField \<Rightarrow> nat \<Rightarrow> real \<Rightarrow> studio \<Rightarrow> studio" where
  "updateTransform Position axis v st = setSelectedPosition axis v st"
| "updateTransform Scale axis v st = setSelectedScale axis v st"
| "updateTransform Rotation axis v st = setSelectedRotation axis v st"

fun fieldOf :: "transformField \<Rightarrow> placedModel \<Rightarrow> vec3" where
  "fieldOf Position m = position m"
| "fieldOf Scale m = scale m"
| "fieldOf Rotation m = rotation m"

definition component :: "nat \<Rightarrow> vec3 \<Rightarrow> real" where
  "component i p = (if i = 0 then vx p else if i = 1 then vy p else vz p)"

text \<open>
  The extension of a file name in the spec's sense: the last dot and what follows it,
  and nothing when the name has no dot. \<^verbatim>\<open>handleImport\<close> itself tests
  \<^verbatim>\<open>endsWith\<close>; the two are compared below.
\<close>

definition extensionOf :: "string \<Rightarrow> string" where
  "extensionOf s =
     (if CHR ''.'' \<in> set s then CHR ''.'' # rev (takeWhile (\<lambda>c. c \<noteq> CHR ''.'') (rev s))
      else [])"

section \<open>Auxiliary notions for the proofs\<close>

text \<open>
  The image of a box under a map of its corners, the map \<open>w \<mapsto> c + k w\<close>, and the
  largest component of a vector.
\<close>

fun mapBox :: "(vec3 \<Rightarrow> vec3) \<Rightarrow> box3 \<Rightarrow> box3" where
  "mapBox f Empty = Empty"
| "mapBox f (Box lo hi) = Box (f lo) (f hi)"

definition affine :: "vec3 \<Rightarrow> real \<Rightarrow> vec3 \<Rightarrow> vec3" where
  "affine c k w = vadd c (vscale k w)"

definition maxComponent :: "vec3 \<Rightarrow> real" where
  "maxComponent s = max (vx s) (max (vy s) (vz s))"

section \<open>Properties of the transform\<close>

text \<open>
  C1: the comment above \<^verbatim>\<open>adjustedPosition\<close> (lines 127 and 128) says the position
  is adjusted to keep the bottom-left-front corner fixed when the scale changes, which
  is what the claim states of the anchor point. The code does not do so. With the model
  turned half a turn about Y, reference metrics \<open>(1, 1, 1)\<close> and position \<open>(0, 0, 0)\<close>,
  the anchor point is sent to \<open>(-1, 1, -1)\<close> at scale \<open>(1, 1, 1)\<close> and to \<open>(-3, 1, -1)\<close>
  at scale \<open>(2, 1, 1)\<close>: changing the scale alone moves it.
\<close>

theorem C1_anchor_moves_when_rotated:
  "groupTransform
      \<lparr>originalLeftX = Finite 1, originalBottomY = Finite 1, originalFrontZ = Finite 1\<rparr>
      (0, 0, 0) (1, 1, 1) (0, 180, 0) (1, 1, 1) = (Finite (- 1), Finite 1, Finite (- 1))
   \<and> groupTransform
      \<lparr>originalLeftX = Finite 1, originalBottomY = Finite 1, originalFrontZ = Finite 1\<rparr>
      (0, 0, 0) (2, 1, 1) (0, 180, 0) (1, 1, 1) = (Finite (- 3), Finite 1, Finite (- 1))"
  by (simp add: groupTransform_def adjustedPosition_def rotateEuler_def toRadians_def js_sub_def)

text \<open>
  What the formula does achieve: with rotation \<open>(0, 0, 0)\<close> and finite reference metrics
  \<open>(a, b, c)\<close>, the point \<open>(a, b, c)\<close> of the child is sent to \<open>position + (a, b, c)\<close>
  at every scale.
\<close>

lemma metrics_point_fixed_without_rotation:
  "groupTransform
      \<lparr>originalLeftX = Finite a, originalBottomY = Finite b, originalFrontZ = Finite c\<rparr>
      pos scl (0, 0, 0) (a, b, c)
     = (Finite (vx pos + a), Finite (vy pos + b), Finite (vz pos + c))"
proof -
  obtain px py pz where p: "pos = (px, py, pz)" by (cases pos) auto
  obtain sx sy sz where s: "scl = (sx, sy, sz)" by (cases scl) auto
  show ?thesis
    by (simp add: p s groupTransform_def adjustedPosition_def rotateEuler_def
        toRadians_def js_sub_def algebra_simps)
qed

text \<open>
  That point is not the corner the comment speaks of. The reference metrics that
  \<^verbatim>\<open>loadModel\<close> stores are the negated minimum of the box measured before the node
  is moved to its final place. For a cube centred on its own origin they are
  \<open>(1, 1, 1)\<close>, which is the maximum corner of the normalised box \<open>[-1, 1]\<^sup>3\<close>: that
  corner is the point kept in place, while the bottom-left-front corner \<open>(-1, -1, -1)\<close>
  goes to \<open>(-3, -3, -3)\<close> at scale \<open>(2, 2, 2)\<close>, with no rotation at all.
\<close>

lemma stored_anchor_of_centred_cube:
  "normalize \<lparr>obj_position = (0, 0, 0), obj_scale = (1, 1, 1),
              vertices = [(- (1 / 2), - (1 / 2), - (1 / 2)), (1 / 2, 1 / 2, 1 / 2)]\<rparr>
     = Loaded \<lparr>obj_position = (0, 0, 0), obj_scale = (2, 2, 2),
               vertices = [(- (1 / 2), - (1 / 2), - (1 / 2)), (1 / 2, 1 / 2, 1 / 2)]\<rparr>
              \<lparr>originalLeftX = Finite 1, originalBottomY = Finite 1, originalFrontZ = Finite 1\<rparr>
   \<and> setFromObject \<lparr>obj_position = (0, 0, 0), obj_scale = (2, 2, 2),
                     vertices = [(- (1 / 2), - (1 / 2), - (1 / 2)), (1 / 2, 1 / 2, 1 / 2)]\<rparr>
       = Box (- 1, - 1, - 1) (1, 1, 1)
   \<and> groupTransform
        \<lparr>originalLeftX = Finite 1, originalBottomY = Finite 1, originalFrontZ = Finite 1\<rparr>
        (0, 0, 0) (1, 1, 1) (0, 0, 0) (- 1, - 1, - 1) = (Finite (- 1), Finite (- 1), Finite (- 1))
   \<and> groupTransform
        \<lparr>originalLeftX = Finite 1, originalBottomY = Finite 1, originalFrontZ = Finite 1\<rparr>
        (0, 0, 0) (2, 2, 2) (0, 0, 0) (- 1, - 1, - 1) = (Finite (- 3), Finite (- 3), Finite (- 3))"
  by (simp add: normalize_def uniformScale_def js_div_def maxDim_def setFromObject_def
      worldVertices_def groupTransform_def adjustedPosition_def rotateEuler_def toRadians_def
      js_sub_def)

text \<open>
  C3 as stated fails: \<^verbatim>\<open>loadModel\<close> stores \<^verbatim>\<open>-Infinity\<close> as reference metrics for a
  node without geometry (\<^verbatim>\<open>scaledBox.min\<close> of an empty box is \<^verbatim>\<open>+Infinity\<close>). With
  these metrics and scale \<open>(1, 1, 1)\<close> each component of the adjusted position is
  \<^verbatim>\<open>position - (-Infinity * 0)\<close>, which is \<^verbatim>\<open>NaN\<close> and not the position.
\<close>

theorem C3_infinite_metrics_give_NaN:
  "adjustedPosition
      \<lparr>originalLeftX = NegInfinity, originalBottomY = NegInfinity, originalFrontZ = NegInfinity\<rparr>
      (1, 2, 3) (1, 1, 1) = (NaN, NaN, NaN)"
  by (simp add: adjustedPosition_def js_sub_def)

text \<open>
  C3 (amended): for every finite reference metrics and every position, at scale
  \<open>(1, 1, 1)\<close> the adjusted position is the position itself, and with rotation
  \<open>(0, 0, 0)\<close> as well the composed transform is the translation by \<open>position\<close>: every
  point \<open>p\<close> goes to \<open>position + p\<close>.
\<close>

theorem C3_identity_composition:
  "adjustedPosition
      \<lparr>originalLeftX = Finite a, originalBottomY = Finite b, originalFrontZ = Finite c\<rparr>
      pos (1, 1, 1) = (Finite (vx pos), Finite (vy pos), Finite (vz pos))
   \<and> groupTransform
      \<lparr>originalLeftX = Finite a, originalBottomY = Finite b, originalFrontZ = Finite c\<rparr>
      pos (1, 1, 1) (0, 0, 0) p
     = (Finite (vx pos + vx p), Finite (vy pos + vy p), Finite (vz pos + vz p))"
proof -
  obtain px py pz where p: "pos = (px, py, pz)" by (cases pos) auto
  obtain x y z where q: "p = (x, y, z)" by (cases p) auto
  show ?thesis
    by (simp add: p q groupTransform_def adjustedPosition_def rotateEuler_def
        toRadians_def js_sub_def)
qed

section \<open>Properties of the normalisation\<close>

subsection \<open>Boxes under scaling and translation\<close>

lemma min_affine:
  fixes k :: real
  assumes "0 \<le> k"
  shows "min (c + k * a) (c + k * b) = c + k * min a b"
proof (cases "a \<le> b")
  case True
  then have "k * a \<le> k * b" using assms by (simp add: mult_left_mono)
  then show ?thesis using True by (simp add: min_def)
next
  case False
  then have "k * b \<le> k * a" using assms by (simp add: mult_left_mono)
  then show ?thesis using False by (simp add: min_def)
qed

lemma max_affine:
  fixes k :: real
  assumes "0 \<le> k"
  shows "max (c + k * a) (c + k * b) = c + k * max a b"
proof (cases "a \<le> b")
  case True
  then have "k * a \<le> k * b" using assms by (simp add: mult_left_mono)
  then show ?thesis using True by (simp add: max_def)
next
  case False
  then have "k * b \<le> k * a" using assms by (simp add: mult_left_mono)
  then show ?thesis using False by (simp add: max_def)
qed

lemma vmin_affine: "0 \<le> k \<Longrightarrow> vmin (affine c k a) (affine c k b) = affine c k (vmin a b)"
  by (cases a; cases b; cases c) (simp add: affine_def min_affine)

lemma vmax_affine: "0 \<le> k \<Longrightarrow> vmax (affine c k a) (affine c k b) = affine c k (vmax a b)"
  by (cases a; cases b; cases c) (simp add: affine_def max_affine)

lemma expandByPoint_affine:
  "0 \<le> k \<Longrightarrow>
   expandByPoint (mapBox (affine c k) b) (affine c k p) = mapBox (affine c k) (expandByPoint b p)"
  by (cases b) (simp_all add: vmin_affine vmax_affine)

lemma foldl_expand_affine:
  "0 \<le> k \<Longrightarrow>
   foldl expandByPoint (mapBox (affine c k) b) (map (affine c k) ps)
     = mapBox (affine c k) (foldl expandByPoint b ps)"
  by (induction ps arbitrary: b) (simp_all add: expandByPoint_affine)

lemma getSize_affine: "getSize (mapBox (affine c k) b) = vscale k (getSize b)"
proof (cases b)
  case Empty
  then show ?thesis by simp
next
  case (Box lo hi)
  obtain a1 a2 a3 where lo: "lo = (a1, a2, a3)" by (cases lo) auto
  obtain b1 b2 b3 where hi: "hi = (b1, b2, b3)" by (cases hi) auto
  obtain c1 c2 c3 where c: "c = (c1, c2, c3)" by (cases c) auto
  show ?thesis by (simp add: Box lo hi c affine_def algebra_simps)
qed

lemma maxComponent_vscale:
  assumes "0 \<le> k"
  shows "maxComponent (vscale k s) = k * maxComponent s"
proof -
  obtain a b c where s: "s = (a, b, c)" by (cases s) auto
  have "max (k * a) (max (k * b) (k * c)) = k * max a (max b c)"
    using max_affine[OF assms, of 0] by simp
  then show ?thesis by (simp add: s maxComponent_def)
qed

lemma maxDim_maxComponent: "maxDim n = maxComponent (getSize (setFromObject n))"
  by (simp add: maxDim_def maxComponent_def Let_def)

text \<open>
  Giving a node of own scale \<open>(1, 1, 1)\<close> the uniform scale \<open>k\<close> and the position
  \<open>q\<close> moves each of its world vertices by one and the same map \<open>w \<mapsto> c + k w\<close>.
\<close>

lemma worldVertices_update:
  assumes "obj_scale n = (1, 1, 1)"
  shows "worldVertices (n\<lparr>obj_position := q, obj_scale := (k, k, k)\<rparr>)
         = map (affine (vadd q (vscale (- k) (obj_position n))) k) (worldVertices n)"
proof -
  obtain p1 p2 p3 where p: "obj_position n = (p1, p2, p3)" by (cases "obj_position n") auto
  obtain q1 q2 q3 where q: "q = (q1, q2, q3)" by (cases q) auto
  have "vadd q (vmul (k, k, k) v)
          = affine (vadd q (vscale (- k) (obj_position n))) k
              (vadd (obj_position n) (vmul (1, 1, 1) v))" for v
    by (cases v) (simp add: p q affine_def algebra_simps)
  then show ?thesis by (simp add: worldVertices_def assms)
qed

lemma setFromObject_update:
  assumes "obj_scale n = (1, 1, 1)" and "0 \<le> k"
  shows "setFromObject (n\<lparr>obj_position := q, obj_scale := (k, k, k)\<rparr>)
         = mapBox (affine (vadd q (vscale (- k) (obj_position n))) k) (setFromObject n)"
  using foldl_expand_affine[OF assms(2), of _ Empty]
  by (simp add: setFromObject_def worldVertices_update[OF assms(1)])

lemma maxDim_update:
  assumes "obj_scale n = (1, 1, 1)" and "0 \<le> k"
  shows "maxDim (n\<lparr>obj_position := q, obj_scale := (k, k, k)\<rparr>) = k * maxDim n"
  by (simp add: maxDim_maxComponent setFromObject_update[OF assms] getSize_affine
      maxComponent_vscale[OF assms(2)])

lemma maxDim_Empty: "setFromObject n = Empty \<Longrightarrow> maxDim n = 0"
  by (simp add: maxDim_def)

subsection \<open>The largest extent after normalisation\<close>

lemma lower_formats:
  "toLowerCase ''gltf'' = ''gltf''" "toLowerCase ''glb'' = ''glb''" "toLowerCase ''fbx'' = ''fbx''"
  by (simp_all add: toLowerCase_def toLowerChar_def)

text \<open>
  C2: the code computes \<open>2 / maxDim\<close> from the world box to bring the largest extent to
  \<open>2\<close>, but \<^verbatim>\<open>setScalar\<close> replaces the node's own scale instead of multiplying it.
  An FBX root that arrives with own scale \<open>(2, 2, 2)\<close> and the vertices \<open>(0, 0, 0)\<close> and
  \<open>(1, 1, 1)\<close> has largest extent \<open>2\<close>, so the scalar is \<open>2 / 2 = 1\<close>; the node's scale
  becomes \<open>(1, 1, 1)\<close> and the largest extent of the normalised node is \<open>1\<close>, not \<open>2\<close>.
\<close>

theorem C2_own_scale_is_overwritten:
  "maxDim \<lparr>obj_position = (0, 0, 0), obj_scale = (2, 2, 2), vertices = [(0, 0, 0), (1, 1, 1)]\<rparr> = 2
   \<and> loadModel ''fbx''
        (Parsed \<lparr>obj_position = (0, 0, 0), obj_scale = (2, 2, 2),
                 vertices = [(0, 0, 0), (1, 1, 1)]\<rparr>)
       = Loaded \<lparr>obj_position = (- (1 / 2), - 1, - (1 / 2)), obj_scale = (1, 1, 1),
                 vertices = [(0, 0, 0), (1, 1, 1)]\<rparr>
                \<lparr>originalLeftX = Finite 0, originalBottomY = Finite 0, originalFrontZ = Finite 0\<rparr>
   \<and> maxDim \<lparr>obj_position = (- (1 / 2), - 1, - (1 / 2)), obj_scale = (1, 1, 1),
              vertices = [(0, 0, 0), (1, 1, 1)]\<rparr> = 1"
  by (simp add: loadModel_def lower_formats normalize_def uniformScale_def js_div_def maxDim_def
      setFromObject_def worldVertices_def)

text \<open>
  Where the node arrives with own scale \<open>(1, 1, 1)\<close>, as the scene root of a glTF file
  does, and its largest extent is positive, the normalisation does reach the extent
  \<open>2\<close>.
\<close>

lemma normalized_extent_of_unit_scale:
  assumes "obj_scale n = (1, 1, 1)" and "0 < maxDim n"
  shows "\<exists>n' r. normalize n = Loaded n' r
           \<and> obj_scale n' = (2 / maxDim n, 2 / maxDim n, 2 / maxDim n)
           \<and> maxDim n' = 2"
proof -
  define k where "k = 2 / maxDim n"
  have k: "0 \<le> k" "k * maxDim n = 2"
    using assms(2) by (simp_all add: k_def)
  have us: "uniformScale n = Finite k"
    using assms(2) by (simp add: uniformScale_def js_div_def k_def)
  define scaled where "scaled = n\<lparr>obj_scale := (k, k, k)\<rparr>"
  have scaled: "scaled = n\<lparr>obj_position := obj_position n, obj_scale := (k, k, k)\<rparr>"
    by (simp add: scaled_def)
  have "maxDim scaled = 2"
    using maxDim_update[OF assms(1) k(1), of "obj_position n"] k(2) by (simp add: scaled)
  then have "setFromObject scaled \<noteq> Empty"
    using maxDim_Empty[of scaled] by auto
  then obtain lo hi where box: "setFromObject scaled = Box lo hi"
    by (cases "setFromObject scaled") auto
  define q where "q = (- vx (getCenter (Box lo hi)), - vy lo - 1, - vz (getCenter (Box lo hi)))"
  have norm: "normalize n = Loaded (scaled\<lparr>obj_position := q\<rparr>)
      \<lparr>originalLeftX = Finite (- vx lo), originalBottomY = Finite (- vy lo),
       originalFrontZ = Finite (- vz lo)\<rparr>"
    using box by (simp add: normalize_def us Let_def q_def scaled_def)
  have fin: "scaled\<lparr>obj_position := q\<rparr> = n\<lparr>obj_position := q, obj_scale := (k, k, k)\<rparr>"
    by (simp add: scaled_def)
  have "maxDim (scaled\<lparr>obj_position := q\<rparr>) = 2"
    using maxDim_update[OF assms(1) k(1), of q] k(2) by (simp add: fin)
  moreover have "obj_scale (scaled\<lparr>obj_position := q\<rparr>) = (k, k, k)"
    by (simp add: scaled_def)
  ultimately show ?thesis using norm by (simp add: k_def)
qed

subsection \<open>Degenerate geometry\<close>

text \<open>
  C4 as stated fails: a node with a single vertex has largest extent \<open>0\<close>, and loading
  it does not fail: the division is carried out and the node is stored.
\<close>

theorem C4_single_vertex_not_rejected:
  "maxDim \<lparr>obj_position = (0, 0, 0), obj_scale = (1, 1, 1), vertices = [(1, 2, 3)]\<rparr> = 0
   \<and> uniformScale \<lparr>obj_position = (0, 0, 0), obj_scale = (1, 1, 1), vertices = [(1, 2, 3)]\<rparr>
       = PosInfinity
   \<and> loadModel ''glb''
        (Parsed \<lparr>obj_position = (0, 0, 0), obj_scale = (1, 1, 1), vertices = [(1, 2, 3)]\<rparr>)
       = LoadedNonFinite"
  by (simp add: loadModel_def lower_formats normalize_def uniformScale_def js_div_def maxDim_def
      setFromObject_def worldVertices_def)

text \<open>
  C4 (amended): the normalisation has no check for degenerate geometry. For every raw
  node whose largest extent \<open>maxDim\<close> is zero the division \<open>2 / maxDim\<close> is carried
  out, its JavaScript result is \<open>Infinity\<close>, nothing is thrown, and the node is stored
  with a scale and reference metrics that are not finite numbers; this holds for each
  of the three formats that reach the normalisation.
\<close>

theorem C4_degenerate_is_loaded:
  assumes "maxDim n = 0"
  shows "uniformScale n = PosInfinity \<and> normalize n = LoadedNonFinite
         \<and> loadModel ''gltf'' (Parsed n) = LoadedNonFinite
         \<and> loadModel ''glb'' (Parsed n) = LoadedNonFinite
         \<and> loadModel ''fbx'' (Parsed n) = LoadedNonFinite"
proof -
  have u: "uniformScale n = PosInfinity"
    using assms by (simp add: uniformScale_def js_div_def)
  then have "normalize n = LoadedNonFinite" by (simp add: normalize_def)
  then show ?thesis using u by (simp add: loadModel_def lower_formats)
qed

text \<open>Witness for C4: a node with no geometry at all; its box is empty, its size zero.\<close>

theorem C4_degenerate_is_loaded_witness:
  "maxDim \<lparr>obj_position = (0, 0, 0), obj_scale = (1, 1, 1), vertices = []\<rparr> = 0
   \<and> uniformScale \<lparr>obj_position = (0, 0, 0), obj_scale = (1, 1, 1), vertices = []\<rparr> = PosInfinity
   \<and> loadModel ''gltf'' (Parsed \<lparr>obj_position = (0, 0, 0), obj_scale = (1, 1, 1), vertices = []\<rparr>)
       = LoadedNonFinite"
proof -
  have h: "maxDim \<lparr>obj_position = (0, 0, 0), obj_scale = (1, 1, 1), vertices = []\<rparr> = 0"
    by (simp add: maxDim_def setFromObject_def worldVertices_def)
  show ?thesis using h C4_degenerate_is_loaded[OF h] by simp
qed

section \<open>Properties of the FBX error branch\<close>

lemma includes_nonempty: "stringIncludes s ''version not supported'' \<Longrightarrow> s \<noteq> []"
  by (cases s) simp_all

lemma includes_version: "stringIncludes versionNotSupported ''version not supported''"
  by (simp add: versionNotSupported_def startsWith_def)

lemma includes_unknown: "\<not> stringIncludes ''Unknown error'' ''version not supported''"
  by (simp add: startsWith_def)

lemma fbxCatch_version: "fbxCatch versionNotSupported = versionNotSupported"
  by (simp add: fbxCatch_def includes_version)

text \<open>
  The prefix the error callback puts before a generic message holds no part of the
  words looked for, so the \<^verbatim>\<open>catch\<close> classifies the wrapped message as the callback
  classified the original one, and wraps it once more.
\<close>

lemma fbxCatch_generic:
  "\<not> stringIncludes s ''version not supported'' \<Longrightarrow>
   fbxCatch (''FBX loading failed: '' @ s) = ''FBX loading failed: FBX loading failed: '' @ s"
  by (simp add: fbxCatch_def startsWith_def)

lemma generic_differs: "''FBX loading failed: FBX loading failed: '' @ s \<noteq> versionNotSupported"
  by (simp add: versionNotSupported_def)

text \<open>
  C8: when the FBX loader fails, \<^verbatim>\<open>loadModel\<close> throws the error with the message
  \<open>FBX file version not supported. Please try a different FBX file or convert to glTF format.\<close>
  exactly when the parser's error text contains \<open>version not supported\<close>, and a generic
  \<open>FBX loading failed: ...\<close> error otherwise (carrying the parser's text, or
  \<open>Unknown error\<close> when it has none); the generic message is never the version message.
\<close>

theorem C8_fbx_error_kinds:
  "loadModel ''fbx'' (ParseFailed m) =
     (if (case m of None \<Rightarrow> False | Some s \<Rightarrow> stringIncludes s ''version not supported'')
      then Failed (Error versionNotSupported)
      else Failed (Error (''FBX loading failed: FBX loading failed: '' @ messageOrUnknown m)))
   \<and> ''FBX loading failed: FBX loading failed: '' @ messageOrUnknown m \<noteq> versionNotSupported"
proof -
  have f: "loadModel ''fbx'' (ParseFailed m) = Failed (Error (fbxCatch (fbxOnError m)))"
    by (simp add: loadModel_def lower_formats)
  have "fbxCatch (fbxOnError m) =
     (if (case m of None \<Rightarrow> False | Some s \<Rightarrow> stringIncludes s ''version not supported'')
      then versionNotSupported
      else ''FBX loading failed: FBX loading failed: '' @ messageOrUnknown m)"
  proof (cases m)
    case None
    then show ?thesis using fbxCatch_generic[OF includes_unknown] by simp
  next
    case (Some s)
    show ?thesis
    proof (cases "stringIncludes s ''version not supported''")
      case True
      then show ?thesis using includes_nonempty[OF True] by (simp add: Some fbxCatch_version)
    next
      case False
      then show ?thesis
        using fbxCatch_generic[OF includes_unknown] fbxCatch_generic[OF False]
        by (simp add: Some)
    qed
  qed
  then show ?thesis using f generic_differs by simp
qed

section \<open>Properties of the camera controller\<close>

text \<open>
  C7: with camera and controls present, for each of the six view tags the handler
  writes the camera position \<open>8 * axisUnitVector view\<close> and the target \<open>(0, 0, 0)\<close>
  and hands exactly this pair to \<^verbatim>\<open>controls.update()\<close>, whatever the pair was
  before; so handling the same tag a second time gives the same camera position and
  target as the first time.
\<close>

theorem C7_camera_snap:
  assumes "view \<in> set canonicalViews"
  shows "switchView view rig
           = \<lparr>cameraPosition = vscale 8 (axisUnitVector view), controlsTarget = (0, 0, 0)\<rparr>
         \<and> handleCameraViewChange update True view rig
           = update \<lparr>cameraPosition = vscale 8 (axisUnitVector view), controlsTarget = (0, 0, 0)\<rparr>
         \<and> handleCameraViewChange update True view (handleCameraViewChange update True view rig)
           = handleCameraViewChange update True view rig"
proof -
  have "switchView view r
          = \<lparr>cameraPosition = vscale 8 (axisUnitVector view), controlsTarget = (0, 0, 0)\<rparr>" for r
    using assms
    by (cases r) (auto simp: canonicalViews_def switchView_def axisUnitVector_def distance_def)
  then show ?thesis by (simp add: handleCameraViewChange_def)
qed

text \<open>
  Witness for C7: the \<open>top\<close> view, from the canvas's initial camera at \<open>(5, 5, 5)\<close>,
  with an update that leaves the pair as it is.
\<close>

theorem C7_camera_snap_witness:
  "''top'' \<in> set canonicalViews
   \<and> handleCameraViewChange (\<lambda>r. r) True ''top''
        \<lparr>cameraPosition = (5, 5, 5), controlsTarget = (1, 0, 0)\<rparr>
       = \<lparr>cameraPosition = (0, 8, 0), controlsTarget = (0, 0, 0)\<rparr>"
proof -
  have h: "''top'' \<in> set canonicalViews" by (simp add: canonicalViews_def)
  show ?thesis
    using h C7_camera_snap[OF h, of "\<lparr>cameraPosition = (5, 5, 5), controlsTarget = (1, 0, 0)\<rparr>" "\<lambda>r. r"]
    by (simp add: axisUnitVector_def)
qed




section \<open>Properties of the registry\<close>

subsection \<open>The import gate\<close>

lemma endsWith_iff: "endsWith s t \<longleftrightarrow> (\<exists>p. s = p @ t)"
proof
  assume "endsWith s t"
  then have "s = take (length s - length t) s @ t"
    by (metis append_take_drop_id endsWith_def)
  then show "\<exists>p. s = p @ t" ..
next
  assume "\<exists>p. s = p @ t"
  then show "endsWith s t" by (auto simp: endsWith_def)
qed

lemma extensionOf_append:
  assumes "CHR ''.'' \<notin> set t"
  shows "extensionOf (p @ CHR ''.'' # t) = CHR ''.'' # t"
proof -
  have "\<And>x. x \<in> set (rev t) \<Longrightarrow> x \<noteq> CHR ''.''" using assms by auto
  then have "takeWhile (\<lambda>c. c \<noteq> CHR ''.'') (rev t @ CHR ''.'' # rev p)
               = rev t @ takeWhile (\<lambda>c. c \<noteq> CHR ''.'') (CHR ''.'' # rev p)"
    by (rule takeWhile_append2)
  then have "takeWhile (\<lambda>c. c \<noteq> CHR ''.'') (rev t @ CHR ''.'' # rev p) = rev t" by simp
  then show ?thesis by (simp add: extensionOf_def)
qed

lemma extensionOf_suffix:
  assumes "extensionOf s = CHR ''.'' # t"
  shows "\<exists>p. s = p @ CHR ''.'' # t"
proof -
  let ?P = "\<lambda>c. c \<noteq> CHR ''.''"
  have dot: "CHR ''.'' \<in> set s"
    using assms by (auto simp: extensionOf_def split: if_splits)
  have t: "t = rev (takeWhile ?P (rev s))"
    using assms dot by (simp add: extensionOf_def)
  have "dropWhile ?P (rev s) \<noteq> []"
    using dot by (simp add: dropWhile_eq_Nil_conv)
  then obtain c r where d: "dropWhile ?P (rev s) = c # r"
    by (cases "dropWhile ?P (rev s)") auto
  then have "\<not> ?P c"
    using hd_dropWhile[of ?P "rev s"] by (metis list.sel(1) list.distinct(1))
  then have c: "c = CHR ''.''" by simp
  have "rev s = takeWhile ?P (rev s) @ dropWhile ?P (rev s)" by simp
  then have "rev s = rev t @ CHR ''.'' # r" using d c t by simp
  then have "s = rev r @ CHR ''.'' # t"
    by (metis rev_append rev_rev_ident rev.simps(2) append_assoc append_Cons append_Nil)
  then show ?thesis ..
qed

text \<open>
  For an extension \<open>.t\<close> with no further dot, the source's \<^verbatim>\<open>endsWith\<close> test and the
  spec's notion of extension agree.
\<close>

lemma endsWith_extension:
  assumes "CHR ''.'' \<notin> set t"
  shows "endsWith s (CHR ''.'' # t) \<longleftrightarrow> extensionOf s = CHR ''.'' # t"
  using extensionOf_append[OF assms] extensionOf_suffix by (auto simp: endsWith_iff)

lemma endsWith_gltf: "endsWith s ''.gltf'' \<longleftrightarrow> extensionOf s = ''.gltf''"
  by (rule endsWith_extension) simp

lemma endsWith_glb: "endsWith s ''.glb'' \<longleftrightarrow> extensionOf s = ''.glb''"
  by (rule endsWith_extension) simp

text \<open>
  C5 as stated fails: a file named \<open>model.fbx\<close> has the extension \<open>.fbx\<close> and is
  rejected with the alert, the registry left as it was.
\<close>

theorem C5_fbx_is_rejected:
  "extensionOf (toLowerCase ''model.fbx'') = ''.fbx''
   \<and> handleImport (Some ''model.fbx'') ''blob:1'' ''id1'' \<lparr>models = [], selectedId = None\<rparr>
       = (\<lparr>models = [], selectedId = None\<rparr>, Some ''Only glTF or GLB supported for import.'')"
  by code_simp

text \<open>
  C5 (amended): the import accepts exactly the file names whose extension, compared
  case-insensitively, is \<open>.gltf\<close> or \<open>.glb\<close>. An accepted file is appended to the
  registry tagged \<open>glb\<close> or \<open>gltf\<close> after its extension, at position \<open>(0, 0, 0)\<close>,
  scale \<open>(1, 1, 1)\<close>, rotation \<open>(0, 0, 0)\<close>, and is selected. Every other name, \<open>.fbx\<close>
  included, is rejected with the message \<open>Only glTF or GLB supported for import.\<close>
  and the registry and selection stay as they were.
\<close>

theorem C5_import_gate:
  "handleImport (Some f) u i st =
     (if extensionOf (toLowerCase f) = ''.gltf'' \<or> extensionOf (toLowerCase f) = ''.glb''
      then (st\<lparr>models := models st @
                  [\<lparr>model_id = i, name = f, url = u,
                    format = (if extensionOf (toLowerCase f) = ''.glb'' then GLB else GLTF),
                    position = (0, 0, 0), scale = (1, 1, 1), rotation = (0, 0, 0)\<rparr>],
                selectedId := Some i\<rparr>, None)
      else (st, Some ''Only glTF or GLB supported for import.''))"
  by (simp add: handleImport_def Let_def endsWith_gltf endsWith_glb)

subsection \<open>A failed load\<close>

text \<open>
  C6 as stated fails: importing \<open>broken.glb\<close> into an empty registry, with a loader
  that fails, leaves the record of the file in the registry and selected.
\<close>

theorem C6_failed_load_keeps_record:
  "importThenLoad ''broken.glb'' ''blob:1'' ''id1'' (ParseFailed None)
      \<lparr>models = [], selectedId = None\<rparr>
     = (\<lparr>models = [\<lparr>model_id = ''id1'', name = ''broken.glb'', url = ''blob:1'', format = GLB,
                     position = (0, 0, 0), scale = (1, 1, 1), rotation = (0, 0, 0)\<rparr>],
         selectedId = Some ''id1''\<rparr>,
        Some (Failed (LoaderError None)))"
  by code_simp

text \<open>
  C6 (amended): the record of an accepted file is appended to the registry and selected
  by \<^verbatim>\<open>handleImport\<close>, before anything is loaded. When the load then fails, the error
  is caught inside \<^verbatim>\<open>loadModel\<close> and the session goes on; the registry and the
  selection stay as \<^verbatim>\<open>handleImport\<close> left them, the failed file's record included.
\<close>

theorem C6_registry_after_failed_load:
  assumes "handleImport (Some f) u i st = (st', None)"
      and "loadModel (formatString (format (last (models st')))) parse = Failed e"
  shows "importThenLoad f u i parse st = (st', Some (Failed e))
         \<and> models st' = models st @ [last (models st')]
         \<and> model_id (last (models st')) = i
         \<and> selectedId st' = Some i"
proof -
  have "importThenLoad f u i parse st = (st', Some (Failed e))"
    using assms by (simp add: importThenLoad_def)
  moreover have "models st' = models st @ [last (models st')]
         \<and> model_id (last (models st')) = i \<and> selectedId st' = Some i"
    using assms(1) by (auto simp: handleImport_def Let_def split: if_splits)
  ultimately show ?thesis by simp
qed

text \<open>
  Witness for C6: \<open>Scene.GLTF\<close> imported next to a chair already placed, with a
  loader that fails with the message \<open>404\<close>.
\<close>

theorem C6_registry_after_failed_load_witness:
  "handleImport (Some ''Scene.GLTF'') ''blob:2'' ''b''
      \<lparr>models = [\<lparr>model_id = ''a'', name = ''chair.glb'', url = ''blob:1'', format = GLB,
                   position = (1, 0, 2), scale = (1, 1, 1), rotation = (0, 0, 0)\<rparr>],
       selectedId = Some ''a''\<rparr>
     = (\<lparr>models = [\<lparr>model_id = ''a'', name = ''chair.glb'', url = ''blob:1'', format = GLB,
                     position = (1, 0, 2), scale = (1, 1, 1), rotation = (0, 0, 0)\<rparr>,
                    \<lparr>model_id = ''b'', name = ''Scene.GLTF'', url = ''blob:2'', format = GLTF,
                     position = (0, 0, 0), scale = (1, 1, 1), rotation = (0, 0, 0)\<rparr>],
         selectedId = Some ''b''\<rparr>, None)
   \<and> importThenLoad ''Scene.GLTF'' ''blob:2'' ''b'' (ParseFailed (Some ''404''))
      \<lparr>models = [\<lparr>model_id = ''a'', name = ''chair.glb'', url = ''blob:1'', format = GLB,
                   position = (1, 0, 2), scale = (1, 1, 1), rotation = (0, 0, 0)\<rparr>],
       selectedId = Some ''a''\<rparr>
     = (\<lparr>models = [\<lparr>model_id = ''a'', name = ''chair.glb'', url = ''blob:1'', format = GLB,
                     position = (1, 0, 2), scale = (1, 1, 1), rotation = (0, 0, 0)\<rparr>,
                    \<lparr>model_id = ''b'', name = ''Scene.GLTF'', url = ''blob:2'', format = GLTF,
                     position = (0, 0, 0), scale = (1, 1, 1), rotation = (0, 0, 0)\<rparr>],
         selectedId = Some ''b''\<rparr>,
        Some (Failed (LoaderError (Some ''404''))))"
proof -
  let ?chair = "\<lparr>model_id = ''a'', name = ''chair.glb'', url = ''blob:1'', format = GLB,
                  position = (1, 0, 2), scale = (1, 1, 1), rotation = (0, 0, 0)\<rparr>"
  let ?scene = "\<lparr>model_id = ''b'', name = ''Scene.GLTF'', url = ''blob:2'', format = GLTF,
                  position = (0, 0, 0), scale = (1, 1, 1), rotation = (0, 0, 0)\<rparr>"
  have h1: "handleImport (Some ''Scene.GLTF'') ''blob:2'' ''b''
              \<lparr>models = [?chair], selectedId = Some ''a''\<rparr>
            = (\<lparr>models = [?chair, ?scene], selectedId = Some ''b''\<rparr>, None)"
    by code_simp
  have h2: "loadModel
              (formatString (format (last (models \<lparr>models = [?chair, ?scene], selectedId = Some ''b''\<rparr>))))
              (ParseFailed (Some ''404''))
            = Failed (LoaderError (Some ''404''))"
    by (simp add: loadModel_def lower_formats)
  show ?thesis using C6_registry_after_failed_load[OF h1 h2] h1 by simp
qed

subsection \<open>Transform edits\<close>

lemma setAxis_component:
  "i < 3 \<Longrightarrow> component i (setAxis a v p) = (if i = a then v else component i p)"
  by (cases p) (auto simp: component_def)

lemma nth_setSelectedPosition:
  "i < length (models st) \<Longrightarrow>
   models (setSelectedPosition a v st) ! i =
     (if Some (model_id (models st ! i)) = selectedId st
      then (models st ! i)\<lparr>position := setAxis a v (position (models st ! i))\<rparr>
      else models st ! i)"
  by (simp add: setSelectedPosition_def)

lemma nth_setSelectedScale:
  "i < length (models st) \<Longrightarrow>
   models (setSelectedScale a v st) ! i =
     (if Some (model_id (models st ! i)) = selectedId st
      then (models st ! i)\<lparr>scale := setAxis a v (scale (models st ! i))\<rparr>
      else models st ! i)"
  by (simp add: setSelectedScale_def)

lemma nth_setSelectedRotation:
  "i < length (models st) \<Longrightarrow>
   models (setSelectedRotation a v st) ! i =
     (if Some (model_id (models st ! i)) = selectedId st
      then (models st ! i)\<lparr>rotation := setAxis a v (rotation (models st ! i))\<rparr>
      else models st ! i)"
  by (simp add: setSelectedRotation_def)

lemma map_unselected:
  "\<forall>m \<in> set ms. Some (model_id m) \<noteq> sel \<Longrightarrow>
   map (\<lambda>m. if Some (model_id m) = sel then f m else m) ms = ms"
  by (induction ms) simp_all

lemma updateTransform_unselected:
  assumes "\<forall>m \<in> set (models st). Some (model_id m) \<noteq> selectedId st"
  shows "updateTransform field axis v st = st"
  using map_unselected[OF assms]
  by (cases field)
     (simp_all add: setSelectedPosition_def setSelectedScale_def setSelectedRotation_def)

lemma updateTransform_frame:
  "length (models (updateTransform field axis v st)) = length (models st)"
  "selectedId (updateTransform field axis v st) = selectedId st"
  by (cases field; simp add: setSelectedPosition_def setSelectedScale_def setSelectedRotation_def)+

lemma updateTransform_other:
  assumes "i < length (models st)" and "Some (model_id (models st ! i)) \<noteq> selectedId st"
  shows "models (updateTransform field axis v st) ! i = models st ! i"
  using assms
  by (cases field)
     (simp_all add: nth_setSelectedPosition nth_setSelectedScale nth_setSelectedRotation)

lemma updateTransform_selected:
  assumes "i < length (models st)" and "Some (model_id (models st ! i)) = selectedId st"
      and "j < 3"
  shows "component j (fieldOf g (models (updateTransform field axis v st) ! i))
           = (if g = field \<and> j = axis then v else component j (fieldOf g (models st ! i)))"
  using assms
  by (cases field; cases g)
     (simp_all add: nth_setSelectedPosition nth_setSelectedScale nth_setSelectedRotation
        setAxis_component)

lemma updateTransform_selected_rest:
  assumes "i < length (models st)"
  shows "model_id (models (updateTransform field axis v st) ! i) = model_id (models st ! i)
       \<and> name (models (updateTransform field axis v st) ! i) = name (models st ! i)
       \<and> url (models (updateTransform field axis v st) ! i) = url (models st ! i)
       \<and> format (models (updateTransform field axis v st) ! i) = format (models st ! i)"
  using assms
  by (cases field)
     (simp_all add: nth_setSelectedPosition nth_setSelectedScale nth_setSelectedRotation)

text \<open>
  C9: an edit of one field (position, scale or rotation) on one axis keeps the number
  and order of the records and the selection. A record whose id is not the selected id
  is unchanged. In a record whose id is the selected id, the named axis of the named
  field becomes the new value, the other axes of that field and all axes of the other
  two fields keep their values, and id, name, url and format are unchanged. When no
  record has the selected id the registry is unchanged.
\<close>

theorem C9_edit_selected_only:
  assumes "i < length (models st)"
  shows "length (models (updateTransform field axis v st)) = length (models st)
    \<and> selectedId (updateTransform field axis v st) = selectedId st
    \<and> (Some (model_id (models st ! i)) \<noteq> selectedId st \<longrightarrow>
         models (updateTransform field axis v st) ! i = models st ! i)
    \<and> (Some (model_id (models st ! i)) = selectedId st \<longrightarrow>
         (\<forall>g j. j < 3 \<longrightarrow>
            component j (fieldOf g (models (updateTransform field axis v st) ! i))
              = (if g = field \<and> j = axis then v else component j (fieldOf g (models st ! i)))))
    \<and> model_id (models (updateTransform field axis v st) ! i) = model_id (models st ! i)
    \<and> name (models (updateTransform field axis v st) ! i) = name (models st ! i)
    \<and> url (models (updateTransform field axis v st) ! i) = url (models st ! i)
    \<and> format (models (updateTransform field axis v st) ! i) = format (models st ! i)
    \<and> ((\<forall>m \<in> set (models st). Some (model_id m) \<noteq> selectedId st) \<longrightarrow>
         updateTransform field axis v st = st)"
  using updateTransform_frame[of field axis v st]
        updateTransform_other[OF assms, of field axis v]
        updateTransform_selected[OF assms, of _ _ field axis v]
        updateTransform_selected_rest[OF assms, of field axis v]
        updateTransform_unselected[of st field axis v]
  by blast

text \<open>
  Witness for C9: a chair and a lamp, the lamp selected; its scale on the Y axis is set
  to \<open>5 / 2\<close>. The Y scale of the lamp is then \<open>5 / 2\<close>, its X scale and its position
  are as before, and the chair is untouched.
\<close>

theorem C9_edit_selected_only_witness:
  "(1::nat) < length (models
      \<lparr>models = [\<lparr>model_id = ''a'', name = ''chair.glb'', url = ''blob:1'', format = GLB,
                   position = (1, 0, 2), scale = (1, 1, 1), rotation = (0, 0, 0)\<rparr>,
                  \<lparr>model_id = ''b'', name = ''lamp.gltf'', url = ''blob:2'', format = GLTF,
                   position = (3, 0, 4), scale = (1, 1, 1), rotation = (0, 90, 0)\<rparr>],
       selectedId = Some ''b''\<rparr>)
   \<and> component 1 (fieldOf Scale (models (updateTransform Scale 1 (5 / 2)
      \<lparr>models = [\<lparr>model_id = ''a'', name = ''chair.glb'', url = ''blob:1'', format = GLB,
                   position = (1, 0, 2), scale = (1, 1, 1), rotation = (0, 0, 0)\<rparr>,
                  \<lparr>model_id = ''b'', name = ''lamp.gltf'', url = ''blob:2'', format = GLTF,
                   position = (3, 0, 4), scale = (1, 1, 1), rotation = (0, 90, 0)\<rparr>],
       selectedId = Some ''b''\<rparr>) ! 1)) = 5 / 2
   \<and> component 0 (fieldOf Scale (models (updateTransform Scale 1 (5 / 2)
      \<lparr>models = [\<lparr>model_id = ''a'', name = ''chair.glb'', url = ''blob:1'', format = GLB,
                   position = (1, 0, 2), scale = (1, 1, 1), rotation = (0, 0, 0)\<rparr>,
                  \<lparr>model_id = ''b'', name = ''lamp.gltf'', url = ''blob:2'', format = GLTF,
                   position = (3, 0, 4), scale = (1, 1, 1), rotation = (0, 90, 0)\<rparr>],
       selectedId = Some ''b''\<rparr>) ! 1)) = 1
   \<and> component 1 (fieldOf Position (models (updateTransform Scale 1 (5 / 2)
      \<lparr>models = [\<lparr>model_id = ''a'', name = ''chair.glb'', url = ''blob:1'', format = GLB,
                   position = (1, 0, 2), scale = (1, 1, 1), rotation = (0, 0, 0)\<rparr>,
                  \<lparr>model_id = ''b'', name = ''lamp.gltf'', url = ''blob:2'', format = GLTF,
                   position = (3, 0, 4), scale = (1, 1, 1), rotation = (0, 90, 0)\<rparr>],
       selectedId = Some ''b''\<rparr>) ! 1)) = 0"
proof -
  let ?st = "\<lparr>models = [\<lparr>model_id = ''a'', name = ''chair.glb'', url = ''blob:1'', format = GLB,
                   position = (1, 0, 2), scale = (1, 1, 1), rotation = (0, 0, 0)\<rparr>,
                  \<lparr>model_id = ''b'', name = ''lamp.gltf'', url = ''blob:2'', format = GLTF,
                   position = (3, 0, 4), scale = (1, 1, 1), rotation = (0, 90, 0)\<rparr>],
       selectedId = Some ''b''\<rparr>"
  have h: "(1::nat) < length (models ?st)" by simp
  have sel: "Some (model_id (models ?st ! 1)) = selectedId ?st" by simp
  show ?thesis
    using h sel C9_edit_selected_only[OF h, of Scale 1 "5 / 2"]
    by (simp add: component_def setSelectedScale_def)
qed

end
